theory Spec2Isabelle
  imports Complex_Main "HOL-Library.Word"
begin

section \<open>MulticopterSim: the vehicle pawn and the Linux joystick\<close>

text \<open>
  A shallow embedding of \<^verbatim>\<open>Source/MulticopterSim/VehiclePawn.cpp\<close> and of
  \<^verbatim>\<open>Source/MulticopterSim/joystick/JoystickLinux.cpp\<close>.

  Numbers. A value of the C++ type \<^verbatim>\<open>float\<close> is a \<^typ>\<open>real\<close>; infinities and NaN are
  not modelled. Where a property depends on the rounding of the arithmetic, the rounding
  is written out: in the clock (\<^verbatim>\<open>getTime\<close>) and in the accelerometer lines of
  \<^verbatim>\<open>Tick\<close> every operation is followed by the rounding to binary32 or binary64 that
  C++ performs. Elsewhere (motor values, gyro rates, quaternion) sums, differences and
  quotients are the exact ones. The fixed-width integers are words (\<^verbatim>\<open>uint8_t\<close> is \<^typ>\<open>8 word\<close>,
  \<^verbatim>\<open>uint16_t\<close> and \<^verbatim>\<open>int16_t\<close> are \<^typ>\<open>16 word\<close>); an \<^verbatim>\<open>int\<close> that only counts or
  indexes is an \<^typ>\<open>int\<close>, and the conversion to \<^verbatim>\<open>uint8_t\<close> at a return is written
  out with \<^const>\<open>word_of_int\<close>.

  Undefined behaviour. An array access outside the array has no defined result in C++;
  the functions that index an array return \<^typ>\<open>'a option\<close> and are \<^const>\<open>None\<close> there.
\<close>

type_synonym cfloat = real

subsection \<open>Binary floating point\<close>

text \<open>
  Rounding to the nearest integer, a tie going to the even one.
\<close>

definition rne :: "real \<Rightarrow> int" where
  "rne x =
     (let f = \<lfloor>x\<rfloor> in
      if x - of_int f < 1 / 2 then f
      else if 1 / 2 < x - of_int f then f + 1
      else if even f then f else f + 1)"

text \<open>
  \<open>round_to p x\<close> rounds \<open>x\<close> to \<open>p\<close> significant bits, to nearest with ties to even:
  with \<open>2\<^sup>e \<le> |x| < 2\<^sup>e\<^sup>+\<^sup>1\<close> the result is the multiple of \<open>2\<^sup>e\<^sup>-\<^sup>p\<^sup>+\<^sup>1\<close> nearest to \<open>x\<close>.
  The exponent has no bound: \<open>round_to 24\<close> is the rounding of binary32 and
  \<open>round_to 53\<close> that of binary64 as long as the result is zero or in the normal range
  of the format (\<open>normal32\<close> for binary32); overflow and subnormal numbers are not
  modelled.
\<close>

definition fl_exponent :: "real \<Rightarrow> int" where
  "fl_exponent x = \<lfloor>log 2 \<bar>x\<bar>\<rfloor>"

definition round_to :: "nat \<Rightarrow> real \<Rightarrow> real" where
  "round_to p x =
     (if x = 0 then 0
      else (let u = 2 powi (fl_exponent x - int p + 1) in u * of_int (rne (x / u))))"

definition to_float :: "real \<Rightarrow> cfloat" where
  "to_float = round_to 24"


definition normal32 :: "real \<Rightarrow> bool" where
  "normal32 y \<longleftrightarrow> y = 0 \<or> (2 powi (- 126) \<le> \<bar>y\<bar> \<and> \<bar>y\<bar> < 2 powi 128)"


subsection \<open>Motor values and angular forces\<close>

text \<open>
  \<^verbatim>\<open>_motorvals[i]\<close>: the array has four entries (the constructor clears
  \<^verbatim>\<open>_motorvals[0..3]\<close>); the index is an \<^verbatim>\<open>int\<close>.
\<close>

definition motorval :: "cfloat list \<Rightarrow> int \<Rightarrow> cfloat option" where
  "motorval ms i =
     (if 0 \<le> i \<and> i < int (length ms) then Some (ms ! nat i) else None)"

text \<open>
  \<^verbatim>\<open>
  float AVehiclePawn::motorsToAngularForce(int a, int b, int c, int d)
  {
      float v = ((_motorvals[a] + _motorvals[b]) - (_motorvals[c] + _motorvals[d]));
      return (v<0 ? -1 : +1) * fabs(v);
  }
  \<close>
\<close>

definition motorsToAngularForce ::
  "cfloat list \<Rightarrow> int \<Rightarrow> int \<Rightarrow> int \<Rightarrow> int \<Rightarrow> cfloat option" where
  "motorsToAngularForce ms a b c d =
     (case motorval ms a of None \<Rightarrow> None | Some ma \<Rightarrow>
      case motorval ms b of None \<Rightarrow> None | Some mb \<Rightarrow>
      case motorval ms c of None \<Rightarrow> None | Some mc \<Rightarrow>
      case motorval ms d of None \<Rightarrow> None | Some md \<Rightarrow>
        (let v = (ma + mb) - (mc + md)
         in Some ((if v < 0 then - 1 else 1) * \<bar>v\<bar>)))"

text \<open>\<^verbatim>\<open>void AVehiclePawn::writeMotor(uint8_t index, float value)\<close>\<close>

definition writeMotor :: "8 word \<Rightarrow> cfloat \<Rightarrow> cfloat list \<Rightarrow> cfloat list option" where
  "writeMotor index v ms =
     (if unat index < length ms then Some (ms[unat index := v]) else None)"

subsection \<open>Vectors, quaternions and sensor noise\<close>

text \<open>The engine's \<^verbatim>\<open>FVector\<close> and \<^verbatim>\<open>FQuat\<close>, with the two vector operations that
  \<^verbatim>\<open>Tick\<close> uses: the difference of two vectors and the division by a scalar.\<close>

record FVector =
  vX :: cfloat
  vY :: cfloat
  vZ :: cfloat

record FQuat =
  qW :: cfloat
  qX :: cfloat
  qY :: cfloat
  qZ :: cfloat

definition FVector_minus :: "FVector \<Rightarrow> FVector \<Rightarrow> FVector" where
  "FVector_minus u v = \<lparr>vX = vX u - vX v, vY = vY u - vY v, vZ = vZ u - vZ v\<rparr>"

definition FVector_div :: "FVector \<Rightarrow> cfloat \<Rightarrow> FVector" where
  "FVector_div u s = \<lparr>vX = vX u / s, vY = vY u / s, vZ = vZ u / s\<rparr>"

text \<open>
  \<^verbatim>\<open>AVehiclePawn::GaussianNoise\<close> holds \<^verbatim>\<open>_size\<close>, \<^verbatim>\<open>_noise\<close>, the distribution and
  the generator. The generator is modelled by the samples that \<^verbatim>\<open>_dist(_generator)\<close>
  is going to return, in order: a draw returns the first and leaves the rest.
\<close>

record GaussianNoise =
  gn_size :: "8 word"
  gn_noise :: cfloat
  gn_generator :: "nat \<Rightarrow> cfloat"

definition draw :: "GaussianNoise \<Rightarrow> cfloat \<times> GaussianNoise" where
  "draw gn = (gn_generator gn 0, gn\<lparr>gn_generator := (\<lambda>n. gn_generator gn (Suc n))\<rparr>)"

text \<open>
  \<^verbatim>\<open>
  void AVehiclePawn::GaussianNoise::addNoise(float vals[])
  {
      for (uint8_t k=0; k<_size; ++k) {
          vals[k] += _dist(_generator);
      }
  }
  \<close>
  \<open>addNoise_loop k\<close> is the loop from the index \<open>k\<close> on.
\<close>

function addNoise_loop ::
  "nat \<Rightarrow> GaussianNoise \<Rightarrow> cfloat list \<Rightarrow> (cfloat list \<times> GaussianNoise) option" where
  "addNoise_loop k gn vals =
     (if k < unat (gn_size gn) then
        (if k < length vals then
           (case draw gn of (x, gn') \<Rightarrow> addNoise_loop (k + 1) gn' (vals[k := vals ! k + x]))
         else None)
      else Some (vals, gn))"
  by pat_completeness auto
termination
  by (relation "measure (\<lambda>(k, gn, vals). unat (gn_size gn) - k)") (auto simp: draw_def)

definition addNoise :: "GaussianNoise \<Rightarrow> cfloat list \<Rightarrow> (cfloat list \<times> GaussianNoise) option" where
  "addNoise gn vals = addNoise_loop 0 gn vals"

subsection \<open>The pawn and the socket server\<close>

text \<open>
  The fields of \<^verbatim>\<open>AVehiclePawn\<close> that the modelled methods read and write. The class
  declaration (\<^verbatim>\<open>VehiclePawn.h\<close>) is not among the sources; the types are read off the
  uses: \<^verbatim>\<open>_serverAvailableBytes\<close> is compared with \<open>0\<close> from both sides and receives
  the result of \<^verbatim>\<open>receiveBuffer\<close>, so it is a signed integer.
\<close>

record AVehiclePawn =
  motorvals :: "cfloat list"
  quat :: FQuat
  gyro :: FVector
  eulerPrev :: FVector
  varioPrev :: cfloat
  accelZ :: cfloat
  elapsedTime :: cfloat
  quatNoise :: GaussianNoise
  serverRunning :: bool
  serverAvailableBytes :: int
  serverByteIndex :: int
  serverBuffer :: "8 word list"

text \<open>
  The global \<^verbatim>\<open>ThreadedSocketServer server\<close>. Its code is not among the sources, so
  what the network does is a parameter of the model: \<open>srv_incoming srv n\<close> is what the
  \<open>n\<close>-th call of \<^verbatim>\<open>receiveBuffer\<close> is going to return (the \<^verbatim>\<open>int\<close> result and the
  bytes it stores), and \<open>srv_receives\<close> counts the calls made so far.
\<close>

record ThreadedSocketServer =
  srv_connected :: bool
  srv_incoming :: "nat \<Rightarrow> int \<times> 8 word list"
  srv_receives :: nat

definition store_bytes :: "8 word list \<Rightarrow> 8 word list \<Rightarrow> 8 word list" where
  "store_bytes bytes buf = take (length buf) (bytes @ drop (length bytes) buf)"

definition receiveBuffer ::
  "ThreadedSocketServer \<Rightarrow> 8 word list \<Rightarrow> nat \<Rightarrow> int \<times> 8 word list \<times> ThreadedSocketServer" where
  "receiveBuffer srv buf len =
     (case srv_incoming srv (srv_receives srv) of (n, bytes) \<Rightarrow>
        (n, store_bytes (take len bytes) buf, srv\<lparr>srv_receives := srv_receives srv + 1\<rparr>))"

subsection \<open>Session start and the per-frame update\<close>


text \<open>
  What the engine hands to one \<^verbatim>\<open>Tick\<close>: the actor's quaternion, its Euler angles in
  radians (\<^verbatim>\<open>getEulerAngles()\<close>), the vertical component of its velocity
  (\<^verbatim>\<open>GetVelocity().Z\<close>) and the frame time.
\<close>

record HostFrame =
  actorQuat :: FQuat
  eulerAngles :: FVector
  velocityZ :: cfloat
  DeltaSeconds :: cfloat

text \<open>
  The sensor emulation of \<^verbatim>\<open>AVehiclePawn::Tick\<close>:
  \<^verbatim>\<open>
      _quat = this->GetActorQuat();
      FVector euler = this->getEulerAngles();
      _gyro = (euler - _eulerPrev) / DeltaSeconds;
      _eulerPrev = euler;
      float vario = this->GetVelocity().Z / 100; // m/s
      _accelZ = (vario - _varioPrev) / DeltaSeconds;
      _varioPrev = vario;
  \<close>
  With \<^verbatim>\<open>DeltaSeconds\<close> zero the quotients are infinities or NaN, which the reals do
  not have (and \<open>x / 0\<close> is \<open>0\<close> in HOL): the model is \<^const>\<open>None\<close> there.
  The three operations of the accelerometer lines are binary32 operations (the divisor
  \<open>100\<close> is converted to \<^verbatim>\<open>float\<close> exactly), each followed by its rounding.
\<close>

definition Tick :: "HostFrame \<Rightarrow> AVehiclePawn \<Rightarrow> AVehiclePawn option" where
  "Tick h p =
     (if DeltaSeconds h = 0 then None
      else
        (let euler = eulerAngles h;
             vario = to_float (velocityZ h / 100)
         in Some (p\<lparr>quat := actorQuat h,
                    gyro := FVector_div (FVector_minus euler (eulerPrev p)) (DeltaSeconds h),
                    eulerPrev := euler,
                    accelZ := to_float (to_float (vario - varioPrev p) / DeltaSeconds h),
                    varioPrev := vario\<rparr>)))"

subsection \<open>The board interface: sensors and clock\<close>

text \<open>
  \<^verbatim>\<open>
  bool AVehiclePawn::getQuaternion(float q[4])
  {
      q[0] = +_quat.W;
      q[1] = -_quat.X;
      q[2] = -_quat.Y;
      q[3] = +_quat.Z;
      _quatNoise.addNoise(q);
      return true;
  }
  \<close>
  The result holds the returned flag, the four entries of \<^verbatim>\<open>q\<close> and the pawn, whose
  noise generator has advanced.
\<close>

definition getQuaternion :: "AVehiclePawn \<Rightarrow> (bool \<times> cfloat list \<times> AVehiclePawn) option" where
  "getQuaternion p =
     (let q = [qW (quat p), - qX (quat p), - qY (quat p), qZ (quat p)]
      in case addNoise (quatNoise p) q of
           None \<Rightarrow> None
         | Some (q', gn') \<Rightarrow> Some (True, q', p\<lparr>quatNoise := gn'\<rparr>))"

text \<open>
  \<^verbatim>\<open>
  bool AVehiclePawn::getGyrometer(float gyroRates[3])
  {
      gyroRates[0] = _gyro.X;
      gyroRates[1] = _gyro.Y;
      gyroRates[2] = 0; // _gyro.Z; // XXX zero-out gyro Z (yaw) for now
      return true;
  }
  \<close>
\<close>

definition getGyrometer :: "AVehiclePawn \<Rightarrow> bool \<times> cfloat list" where
  "getGyrometer p = (True, [vX (gyro p), vY (gyro p), 0])"



subsection \<open>The board interface: the serial port over the socket\<close>

text \<open>
  \<^verbatim>\<open>
  uint8_t AVehiclePawn::serialAvailableBytes(void)
  {
      if (_serverAvailableBytes > 0) {
          return _serverAvailableBytes;
      }
      else if (server.connected()) {
          _serverAvailableBytes = server.receiveBuffer(_serverBuffer, ThreadedSocketServer::BUFLEN);
          if (_serverAvailableBytes < 0) {
              _serverAvailableBytes = 0;
          }
          _serverByteIndex = 0;
          return _serverAvailableBytes;
      }
      return 0;
  }
  \<close>
  The constant \<^verbatim>\<open>ThreadedSocketServer::BUFLEN\<close> is not among the sources and is the
  first parameter. The function returns a \<^verbatim>\<open>uint8_t\<close>: the count is converted at each
  \<^verbatim>\<open>return\<close>.
\<close>

definition serialAvailableBytes ::
  "nat \<Rightarrow> ThreadedSocketServer \<Rightarrow> AVehiclePawn \<Rightarrow> 8 word \<times> ThreadedSocketServer \<times> AVehiclePawn" where
  "serialAvailableBytes BUFLEN srv p =
     (if 0 < serverAvailableBytes p then (word_of_int (serverAvailableBytes p), srv, p)
      else if srv_connected srv then
        (case receiveBuffer srv (serverBuffer p) BUFLEN of (n, buf', srv') \<Rightarrow>
           (let avail = (if n < 0 then 0 else n);
                p' = p\<lparr>serverBuffer := buf', serverAvailableBytes := avail, serverByteIndex := 0\<rparr>
            in (word_of_int avail, srv', p')))
      else (0, srv, p))"

text \<open>
  \<^verbatim>\<open>
  uint8_t AVehiclePawn::serialReadByte(void)
  {
      uint8_t byte = _serverBuffer[_serverByteIndex]; // post-increment
      _serverByteIndex++;
      _serverAvailableBytes--;
      return byte;
  }
  \<close>
  The function does not look at the count; a cursor outside the buffer is undefined
  behaviour.
\<close>

definition serialReadByte :: "AVehiclePawn \<Rightarrow> (8 word \<times> AVehiclePawn) option" where
  "serialReadByte p =
     (if 0 \<le> serverByteIndex p \<and> serverByteIndex p < int (length (serverBuffer p)) then
        Some (serverBuffer p ! nat (serverByteIndex p),
              p\<lparr>serverByteIndex := serverByteIndex p + 1,
                serverAvailableBytes := serverAvailableBytes p - 1\<rparr>)
      else None)"

text \<open>\<open>n\<close> calls of \<^verbatim>\<open>serialReadByte\<close> one after the other, with the bytes they return.\<close>

fun serialReadByte_calls :: "nat \<Rightarrow> AVehiclePawn \<Rightarrow> (8 word list \<times> AVehiclePawn) option" where
  "serialReadByte_calls 0 p = Some ([], p)"
| "serialReadByte_calls (Suc n) p =
     (case serialReadByte p of
        None \<Rightarrow> None
      | Some (b, p') \<Rightarrow>
          (case serialReadByte_calls n p' of
             None \<Rightarrow> None
           | Some (bs, p'') \<Rightarrow> Some (b # bs, p'')))"

subsection \<open>Joystick initialisation (Windows)\<close>

text \<open>
  \<^verbatim>\<open>JOYCAPS\<close> with the two fields that \<^verbatim>\<open>joystickInit\<close> reads. The vendor and product
  constants come from a header that is not among the sources; they are parameters.
  \<^verbatim>\<open>SimReceiver\<close> is modelled by the five arguments of its constructor.
\<close>

record JOYCAPS =
  wMid :: "16 word"
  wPid :: "16 word"

record JoystickIds =
  VENDOR_STM :: "16 word"
  PRODUCT_TARANIS :: "16 word"
  PRODUCT_PS3_CLONE :: "16 word"
  PRODUCT_PS4 :: "16 word"
  PRODUCT_XBOX360_CLONE :: "16 word"
  PRODUCT_EXTREMEPRO3D :: "16 word"
  PRODUCT_F310 :: "16 word"

record SimReceiver =
  rx_axismap :: "8 word list"
  rx_buttonmap :: "8 word list"
  rx_reversedVerticals :: bool
  rx_springyThrottle :: bool
  rx_useButtonForAux :: bool

text \<open>
  \<^verbatim>\<open>
      for (_joyid=0; _joyid<16; _joyid++)
          if (joyGetDevCaps(_joyid, &joycaps, sizeof(joycaps)) == JOYERR_NOERROR)
              break;
  \<close>
  \<open>joyGetDevCaps k\<close> is the capabilities of the device \<open>k\<close>, or \<^const>\<open>None\<close> when the
  call reports an error. \<open>grabJoystick\<close> is the loop from \<open>joyid\<close> on; its value is the
  final \<^verbatim>\<open>_joyid\<close>.
\<close>

function grabJoystick :: "(nat \<Rightarrow> JOYCAPS option) \<Rightarrow> nat \<Rightarrow> nat" where
  "grabJoystick joyGetDevCaps joyid =
     (if joyid < 16 then
        (if joyGetDevCaps joyid \<noteq> None then joyid
         else grabJoystick joyGetDevCaps (joyid + 1))
      else joyid)"
  by pat_completeness auto
termination
  by (relation "measure (\<lambda>(caps, joyid). 16 - joyid)") auto

text \<open>
  The function, with the runs of assignments written on one line each:
  \<^verbatim>\<open>
  void AVehiclePawn::joystickInit(void)
  {
      JOYCAPS joycaps;
      uint8_t axismap[5];
      uint8_t buttonmap[5];
      bool springyThrottle = false;
      bool useButtonForAux = false;
      bool reversedVerticals = false;
      ... (the loop above)
      if (_joyid < 16) {
          uint16_t vendorId = joycaps.wMid;
          uint16_t productId = joycaps.wPid;
          if (vendorId == VENDOR_STM) {
              if (productId == PRODUCT_TARANIS) { axismap[0..4] = 0, 1, 2, 5, 3 }
              else                              { axismap[0..4] = 1, 2, 5, 0, 4 }
          }
          else {
              reversedVerticals = true;
              switch (productId) {
                  case PRODUCT_PS3_CLONE:
                  case PRODUCT_PS4:
                      axismap[0..3] = 1, 2, 3, 0; springyThrottle = true;
                      useButtonForAux = true; buttonmap[0..2] = 1, 2, 4; break;
                  case PRODUCT_XBOX360_CLONE:
                      axismap[0..3] = 1, 4, 3, 0; springyThrottle = true;
                      useButtonForAux = true; buttonmap[0..2] = 8, 2, 1; break;
                  case PRODUCT_EXTREMEPRO3D:
                      axismap[0..3] = 2, 0, 1, 3;
                      useButtonForAux = true; buttonmap[0..2] = 1, 2, 4; break;
                  case PRODUCT_F310:
                      axismap[0..3] = 1, 4, 3, 0; springyThrottle = true;
                      useButtonForAux = true; buttonmap[0..2] = 8, 2, 1; break;
              }
          }
      }
      receiver = new SimReceiver(axismap, buttonmap, reversedVerticals, springyThrottle, useButtonForAux);
  }
  \<close>
  The two arrays are declared without an initialiser: \<open>axismap0\<close> and \<open>buttonmap0\<close> are
  what they hold when the function is entered (five entries each). The result is the
  final \<^verbatim>\<open>_joyid\<close> and the receiver.
\<close>

definition joystickInit ::
  "JoystickIds \<Rightarrow> (nat \<Rightarrow> JOYCAPS option) \<Rightarrow> 8 word list \<Rightarrow> 8 word list \<Rightarrow> nat \<times> SimReceiver" where
  "joystickInit ids joyGetDevCaps axismap0 buttonmap0 =
     (let joyid = grabJoystick joyGetDevCaps 0;
          untouched = (axismap0, buttonmap0, False, False, False);
          (axismap, buttonmap, reversedVerticals, springyThrottle, useButtonForAux) =
            (if joyid < 16 then
               (case joyGetDevCaps joyid of
                  None \<Rightarrow> untouched
                | Some joycaps \<Rightarrow>
                    (let vendorId = wMid joycaps; productId = wPid joycaps in
                     if vendorId = VENDOR_STM ids then
                       (if productId = PRODUCT_TARANIS ids then
                          (axismap0[0 := 0, 1 := 1, 2 := 2, 3 := 5, 4 := 3],
                           buttonmap0, False, False, False)
                        else
                          (axismap0[0 := 1, 1 := 2, 2 := 5, 3 := 0, 4 := 4],
                           buttonmap0, False, False, False))
                     else if productId = PRODUCT_PS3_CLONE ids \<or> productId = PRODUCT_PS4 ids then
                       (axismap0[0 := 1, 1 := 2, 2 := 3, 3 := 0],
                        buttonmap0[0 := 1, 1 := 2, 2 := 4], True, True, True)
                     else if productId = PRODUCT_XBOX360_CLONE ids then
                       (axismap0[0 := 1, 1 := 4, 2 := 3, 3 := 0],
                        buttonmap0[0 := 8, 1 := 2, 2 := 1], True, True, True)
                     else if productId = PRODUCT_EXTREMEPRO3D ids then
                       (axismap0[0 := 2, 1 := 0, 2 := 1, 3 := 3],
                        buttonmap0[0 := 1, 1 := 2, 2 := 4], True, False, True)
                     else if productId = PRODUCT_F310 ids then
                       (axismap0[0 := 1, 1 := 4, 2 := 3, 3 := 0],
                        buttonmap0[0 := 8, 1 := 2, 2 := 1], True, True, True)
                     else (axismap0, buttonmap0, True, False, False)))
             else untouched)
      in (joyid,
          \<lparr>rx_axismap = axismap, rx_buttonmap = buttonmap,
           rx_reversedVerticals = reversedVerticals,
           rx_springyThrottle = springyThrottle,
           rx_useButtonForAux = useButtonForAux\<rparr>))"

subsection \<open>The RealFlight InterLink buttons (Linux)\<close>

text \<open>
  \<^verbatim>\<open>enum { AX_THR, AX_ROL, AX_PIT, AX_YAW, AX_AU1, AX_AU2, AX_NIL };\<close>
\<close>

definition AX_THR :: nat where "AX_THR = 0"
definition AX_ROL :: nat where "AX_ROL = 1"
definition AX_PIT :: nat where "AX_PIT = 2"
definition AX_YAW :: nat where "AX_YAW = 3"
definition AX_AU1 :: nat where "AX_AU1 = 4"
definition AX_AU2 :: nat where "AX_AU2 = 5"
definition AX_NIL :: nat where "AX_NIL = 6"

text \<open>The assignment \<^verbatim>\<open>axes[i] = v\<close>, undefined outside the array.\<close>

definition store_axis :: "cfloat list \<Rightarrow> nat \<Rightarrow> cfloat \<Rightarrow> cfloat list option" where
  "store_axis axes i v = (if i < length axes then Some (axes[i := v]) else None)"

text \<open>
  \<^verbatim>\<open>
  static void handleRealflightInterlinkButtons(uint8_t number, int16_t value, float axes[6])
  {
      if (number == 3 && value == 1) {
          axes[AX_AU1] = 0.0;
      }
      if (number == 3 && value == 0) {
          axes[AX_AU1] = 0.5;
      }
      if (number == 4 && value == 0) {
          axes[AX_AU1] = 0.5;
      }
      if (number == 4 && value == 1) {
          axes[AX_AU1] = 1.0;
      }
  }
  \<close>
  \<open>number\<close> and \<open>val\<close> are the button and the state of a button event
  (\<open>1\<close> pressed, \<open>0\<close> released). The four statements run in the source's order.
\<close>

definition handleRealflightInterlinkButtons ::
  "8 word \<Rightarrow> 16 word \<Rightarrow> cfloat list \<Rightarrow> cfloat list option" where
  "handleRealflightInterlinkButtons number val axes =
     Option.bind (if number = 3 \<and> val = 1 then store_axis axes AX_AU1 0 else Some axes) (\<lambda>axes.
     Option.bind (if number = 3 \<and> val = 0 then store_axis axes AX_AU1 (1 / 2) else Some axes) (\<lambda>axes.
     Option.bind (if number = 4 \<and> val = 0 then store_axis axes AX_AU1 (1 / 2) else Some axes) (\<lambda>axes.
     (if number = 4 \<and> val = 1 then store_axis axes AX_AU1 1 else Some axes))))"

subsection \<open>Concrete states for the examples\<close>

definition examplePawn :: AVehiclePawn where
  "examplePawn =
     \<lparr>motorvals = [0, 0, 0, 0],
      quat = \<lparr>qW = 1 / 2, qX = 1 / 2, qY = 1 / 2, qZ = 1 / 2\<rparr>,
      gyro = \<lparr>vX = 0, vY = 0, vZ = 0\<rparr>,
      eulerPrev = \<lparr>vX = 0, vY = 0, vZ = 0\<rparr>,
      varioPrev = 0,
      accelZ = 0,
      elapsedTime = 1,
      quatNoise = \<lparr>gn_size = 4, gn_noise = 1 / 100, gn_generator = (\<lambda>n. (real n + 1) / 100)\<rparr>,
      serverRunning = True,
      serverAvailableBytes = 0,
      serverByteIndex = 0,
      serverBuffer = [36, 77, 60, 0, 100, 100, 0, 0]\<rparr>"

definition exampleServer :: ThreadedSocketServer where
  "exampleServer =
     \<lparr>srv_connected = True, srv_incoming = (\<lambda>n. (3, [1, 2, 3])), srv_receives = 0\<rparr>"

definition exampleFrame :: HostFrame where
  "exampleFrame =
     \<lparr>actorQuat = \<lparr>qW = 1, qX = 0, qY = 0, qZ = 0\<rparr>,
      eulerAngles = \<lparr>vX = 1 / 10, vY = - 1 / 5, vZ = 3\<rparr>,
      velocityZ = 200,
      DeltaSeconds = 1 / 50\<rparr>"

definition exampleIds :: JoystickIds where
  "exampleIds =
     \<lparr>VENDOR_STM = 0x0483, PRODUCT_TARANIS = 0x5710, PRODUCT_PS3_CLONE = 0x0003,
      PRODUCT_PS4 = 0x09CC, PRODUCT_XBOX360_CLONE = 0xFAFE, PRODUCT_EXTREMEPRO3D = 0xC215,
      PRODUCT_F310 = 0xC21D\<rparr>"

section \<open>Properties\<close>

subsection \<open>Binary floating point\<close>




lemma two_powr_int: "2 powr (real_of_int k) = (2::real) powi k"
  by (rule powr_real_of_int') simp_all

lemma two_powr_int_Suc: "2 powr (real_of_int k + 1) = (2::real) powi (k + 1)"
  using two_powr_int [of "k + 1"] by simp

lemma two_powi_pos: "0 < (2::real) powi k"
  by simp

lemma fl_exponent_eqI:
  assumes "2 powi k \<le> \<bar>x\<bar>" and "\<bar>x\<bar> < 2 powi (k + 1)"
  shows "fl_exponent x = k"
proof -
  have pos: "0 < \<bar>x\<bar>" using assms(1) two_powi_pos [of k] by linarith
  have "2 powr (real_of_int k) \<le> \<bar>x\<bar> \<and> \<bar>x\<bar> < 2 powr (real_of_int k + 1)"
    using assms by (simp only: two_powr_int two_powr_int_Suc)
  then show ?thesis
    unfolding fl_exponent_def using floor_log_eq_powr_iff [OF pos, of 2 k] by simp
qed

lemma fl_exponent_bounds:
  assumes "x \<noteq> 0"
  shows "2 powi (fl_exponent x) \<le> \<bar>x\<bar>" and "\<bar>x\<bar> < 2 powi (fl_exponent x + 1)"
proof -
  have pos: "0 < \<bar>x\<bar>" using assms by simp
  from floor_log_eq_powr_iff [OF pos, of 2 "fl_exponent x"]
  have "2 powr (real_of_int (fl_exponent x)) \<le> \<bar>x\<bar> \<and>
        \<bar>x\<bar> < 2 powr (real_of_int (fl_exponent x) + 1)"
    by (simp add: fl_exponent_def)
  then show "2 powi (fl_exponent x) \<le> \<bar>x\<bar>" and "\<bar>x\<bar> < 2 powi (fl_exponent x + 1)"
    by (simp_all only: two_powr_int two_powr_int_Suc)
qed

lemma round_to_binade:
  assumes "2 powi k \<le> \<bar>x\<bar>" and "\<bar>x\<bar> < 2 powi (k + 1)"
  shows "round_to p x = 2 powi (k - int p + 1) * of_int (rne (x / 2 powi (k - int p + 1)))"
proof -
  have "0 < \<bar>x\<bar>" using assms(1) two_powi_pos [of k] by linarith
  then have "x \<noteq> 0" by simp
  then show ?thesis
    by (simp add: round_to_def Let_def fl_exponent_eqI [OF assms])
qed












lemma round_to_scale:
  "round_to p (2 powi j * x) = 2 powi j * round_to p x"
proof (cases "x = 0")
  case True
  then show ?thesis by (simp add: round_to_def)
next
  case False
  let ?e = "fl_exponent x"
  have split: "(2::real) powi (?e + j) = 2 powi j * 2 powi ?e"
    and split1: "(2::real) powi (?e + j + 1) = 2 powi j * 2 powi (?e + 1)"
    and splitu: "(2::real) powi (?e + j - int p + 1) = 2 powi j * 2 powi (?e - int p + 1)"
  proof -
    show "(2::real) powi (?e + j) = 2 powi j * 2 powi ?e"
      using power_int_add [of "2::real" j ?e] by (simp add: add.commute)
    have "?e + j + 1 = j + (?e + 1)" by simp
    then have "(2::real) powi (?e + j + 1) = 2 powi (j + (?e + 1))" by (rule arg_cong)
    then show "(2::real) powi (?e + j + 1) = 2 powi j * 2 powi (?e + 1)"
      using power_int_add [of "2::real" j "?e + 1"] by simp
    have "?e + j - int p + 1 = j + (?e - int p + 1)" by simp
    then have "(2::real) powi (?e + j - int p + 1) = 2 powi (j + (?e - int p + 1))"
      by (rule arg_cong)
    then show "(2::real) powi (?e + j - int p + 1) = 2 powi j * 2 powi (?e - int p + 1)"
      using power_int_add [of "2::real" j "?e - int p + 1"] by simp
  qed
  have abs: "\<bar>2 powi j * x\<bar> = 2 powi j * \<bar>x\<bar>" by (simp add: abs_mult)
  have e: "fl_exponent (2 powi j * x) = ?e + j"
  proof (rule fl_exponent_eqI)
    show "2 powi (?e + j) \<le> \<bar>2 powi j * x\<bar>"
      unfolding abs split using fl_exponent_bounds(1) [OF False] by simp
    show "\<bar>2 powi j * x\<bar> < 2 powi (?e + j + 1)"
      unfolding abs split1 using fl_exponent_bounds(2) [OF False] by simp
  qed
  have nz: "2 powi j * x \<noteq> 0" using False by simp
  have q: "2 powi j * x / (2 powi j * 2 powi (?e - int p + 1)) = x / 2 powi (?e - int p + 1)"
    by simp
  have "round_to p (2 powi j * x) =
          2 powi (?e + j - int p + 1) * of_int (rne (2 powi j * x / 2 powi (?e + j - int p + 1)))"
    using nz by (simp only: round_to_def Let_def e if_False)
  also have "\<dots> = 2 powi j * (2 powi (?e - int p + 1) * of_int (rne (x / 2 powi (?e - int p + 1))))"
    unfolding splitu q by (simp only: mult.assoc)
  also have "\<dots> = 2 powi j * round_to p x"
    using False by (simp only: round_to_def Let_def if_False)
  finally show ?thesis .
qed

lemma to_float_scale: "to_float (2 powi j * x) = 2 powi j * to_float x"
  by (simp only: to_float_def round_to_scale)

subsection \<open>Angular forces\<close>

lemma motorval_in_range:
  "0 \<le> i \<Longrightarrow> i < int (length ms) \<Longrightarrow> motorval ms i = Some (ms ! nat i)"
  by (simp add: motorval_def)

lemma sign_times_abs: "(if v < 0 then - 1 else 1) * \<bar>v\<bar> = (v::real)"
  by simp

text \<open>
  Claim C1, as stated: with the motor values \<open>[1,0,1,0]\<close> the call
  \<^verbatim>\<open>motorsToAngularForce(2, 3, 0, 1)\<close> returns \<open>+1\<close>, and with \<open>[0,1,0,1]\<close> it
  returns \<open>-1\<close>. The code returns neither: in both vectors motors 2 and 3 sum to
  \<open>1\<close>, and so do motors 0 and 1.
\<close>

theorem motorsToAngularForce_scenario_counterexample:
  "motorsToAngularForce [1, 0, 1, 0] 2 3 0 1 \<noteq> Some 1 \<and>
   motorsToAngularForce [0, 1, 0, 1] 2 3 0 1 \<noteq> Some (- 1)"
  by (simp add: motorsToAngularForce_def motorval_def)

text \<open>
  Claim C1, amended: for the motor values \<open>[1,0,1,0]\<close> and for \<open>[0,1,0,1]\<close> the call
  \<^verbatim>\<open>motorsToAngularForce(2, 3, 0, 1)\<close> returns \<open>0\<close>, since in both vectors the pair
  (2, 3) and the pair (0, 1) have the same sum.
\<close>

theorem motorsToAngularForce_scenario:
  "motorsToAngularForce [1, 0, 1, 0] 2 3 0 1 = Some 0 \<and>
   motorsToAngularForce [0, 1, 0, 1] 2 3 0 1 = Some 0"
  by (simp add: motorsToAngularForce_def motorval_def)

text \<open>
  Claim C10: for four motor values and indices \<open>a\<close>, \<open>b\<close>, \<open>c\<close>, \<open>d\<close> in \<open>0..3\<close>,
  \<^verbatim>\<open>motorsToAngularForce(a, b, c, d)\<close> is the plain signed difference
  \<open>(motor[a] + motor[b]) - (motor[c] + motor[d])\<close>: multiplying the absolute value by
  the sign gives the value back.
\<close>

theorem motorsToAngularForce_is_difference:
  assumes "length ms = 4"
    and "0 \<le> a" "a \<le> 3" and "0 \<le> b" "b \<le> 3"
    and "0 \<le> c" "c \<le> 3" and "0 \<le> d" "d \<le> 3"
  shows "motorsToAngularForce ms a b c d =
           Some ((ms ! nat a + ms ! nat b)
                 - (ms ! nat c + ms ! nat d))"
proof -
  have "motorval ms a = Some (ms ! nat a)"
    and "motorval ms b = Some (ms ! nat b)"
    and "motorval ms c = Some (ms ! nat c)"
    and "motorval ms d = Some (ms ! nat d)"
    using assms by (simp_all add: motorval_in_range)
  then show ?thesis
    unfolding motorsToAngularForce_def Let_def
    by (simp only: option.case sign_times_abs)
qed

theorem motorsToAngularForce_is_difference_witness:
  "motorsToAngularForce [3/4, 1/4, 1/2, 1] 1 3 0 2 = Some 0 \<and>
   motorsToAngularForce [0, 0, 1, 1] 0 1 2 3 = Some (- 2)"
  using motorsToAngularForce_is_difference [of "[3/4, 1/4, 1/2, 1]" 1 3 0 2]
    motorsToAngularForce_is_difference [of "[0, 0, 1, 1]" 0 1 2 3]
  by simp

subsection \<open>The serial port\<close>

lemma uint_word_of_int_u8: "0 \<le> n \<Longrightarrow> n \<le> 255 \<Longrightarrow> uint (word_of_int n :: 8 word) = n"
  by (simp add: uint_word_of_int)

text \<open>
  Up to a count of \<open>255\<close> the function does what its callers expect. For every state
  and every answer of the socket:
  \<^item> with a positive count it performs no receive and changes nothing, and it returns
    that count when the count is at most \<open>255\<close>;
  \<^item> with a count that is not positive and a client connected it performs one receive,
    sets the read cursor to zero, stores the received count with a negative result
    replaced by zero, and returns the stored count when it is at most \<open>255\<close>;
  \<^item> with a count that is not positive and no client connected it returns zero and
    changes nothing;
  \<^item> the returned value is never negative.
\<close>

lemma serialAvailableBytes_small_counts:
  assumes "serialAvailableBytes BUFLEN srv p = (r, srv', p')"
  shows "(0 < serverAvailableBytes p \<longrightarrow> srv' = srv \<and> p' = p) \<and>
         (0 < serverAvailableBytes p \<and> serverAvailableBytes p \<le> 255 \<longrightarrow>
            uint r = serverAvailableBytes p) \<and>
         (serverAvailableBytes p \<le> 0 \<and> srv_connected srv \<longrightarrow>
            srv_receives srv' = srv_receives srv + 1 \<and>
            serverByteIndex p' = 0 \<and>
            serverAvailableBytes p' = max 0 (fst (srv_incoming srv (srv_receives srv))) \<and>
            (fst (srv_incoming srv (srv_receives srv)) \<le> 255 \<longrightarrow>
               uint r = max 0 (fst (srv_incoming srv (srv_receives srv))))) \<and>
         (serverAvailableBytes p \<le> 0 \<and> \<not> srv_connected srv \<longrightarrow>
            r = 0 \<and> srv' = srv \<and> p' = p) \<and>
         0 \<le> uint r"
  using assms
  by (auto simp: serialAvailableBytes_def receiveBuffer_def Let_def uint_word_of_int_u8 max_def
           split: if_splits prod.splits)

text \<open>
  Claim C2: whenever the count \<^verbatim>\<open>_serverAvailableBytes\<close> is positive,
  \<^verbatim>\<open>serialAvailableBytes\<close> returns that count, and after a receive it returns the
  received count. The code converts the count to \<^verbatim>\<open>uint8_t\<close> at the \<^verbatim>\<open>return\<close>: with a
  buffer of \<open>512\<close> bytes, a receive that brings \<open>256\<close> bytes stores the count \<open>256\<close> and
  returns \<open>0\<close>; with \<open>256\<close> bytes unread the function returns \<open>0\<close> and changes
  nothing, so that every later call returns \<open>0\<close> again and no receive is made.
\<close>

theorem serialAvailableBytes_narrows_count:
  "fst (serialAvailableBytes 512
          (exampleServer\<lparr>srv_incoming := (\<lambda>n. (256, replicate 256 1))\<rparr>)
          (examplePawn\<lparr>serverBuffer := replicate 512 0\<rparr>)) = 0 \<and>
   serverAvailableBytes
     (snd (snd (serialAvailableBytes 512
          (exampleServer\<lparr>srv_incoming := (\<lambda>n. (256, replicate 256 1))\<rparr>)
          (examplePawn\<lparr>serverBuffer := replicate 512 0\<rparr>)))) = 256 \<and>
   0 < serverAvailableBytes
         (examplePawn\<lparr>serverAvailableBytes := 256, serverBuffer := replicate 512 0\<rparr>) \<and>
   serialAvailableBytes 512 exampleServer
       (examplePawn\<lparr>serverAvailableBytes := 256, serverBuffer := replicate 512 0\<rparr>)
     = (0, exampleServer,
        examplePawn\<lparr>serverAvailableBytes := 256, serverBuffer := replicate 512 0\<rparr>) \<and>
   uint (fst (serialAvailableBytes 512 exampleServer
          (examplePawn\<lparr>serverAvailableBytes := 256, serverBuffer := replicate 512 0\<rparr>)))
     \<noteq> serverAvailableBytes
         (examplePawn\<lparr>serverAvailableBytes := 256, serverBuffer := replicate 512 0\<rparr>)"
  by (simp add: serialAvailableBytes_def receiveBuffer_def exampleServer_def examplePawn_def)

lemma serialReadByte_calls_in_range:
  "0 \<le> serverByteIndex p \<Longrightarrow> serverByteIndex p + int n \<le> int (length (serverBuffer p)) \<Longrightarrow>
   serialReadByte_calls n p =
     Some (take n (drop (nat (serverByteIndex p)) (serverBuffer p)),
           p\<lparr>serverByteIndex := serverByteIndex p + int n,
             serverAvailableBytes := serverAvailableBytes p - int n\<rparr>)"
proof (induction n arbitrary: p)
  case 0
  then show ?case by simp
next
  case (Suc n)
  let ?i = "nat (serverByteIndex p)"
  let ?p' = "p\<lparr>serverByteIndex := serverByteIndex p + 1,
                serverAvailableBytes := serverAvailableBytes p - 1\<rparr>"
  from Suc.prems have inb: "?i < length (serverBuffer p)" by linarith
  from Suc.prems have rd: "serialReadByte p = Some (serverBuffer p ! ?i, ?p')"
    by (simp add: serialReadByte_def)
  have "serialReadByte_calls n ?p' =
     Some (take n (drop (nat (serverByteIndex ?p')) (serverBuffer ?p')),
           ?p'\<lparr>serverByteIndex := serverByteIndex ?p' + int n,
             serverAvailableBytes := serverAvailableBytes ?p' - int n\<rparr>)"
    using Suc.prems by (intro Suc.IH) simp_all
  moreover have "nat (serverByteIndex p + 1) = Suc ?i"
    using Suc.prems by linarith
  moreover have "serverBuffer p ! ?i # take n (drop (Suc ?i) (serverBuffer p))
                  = take (Suc n) (drop ?i (serverBuffer p))"
    by (simp add: Cons_nth_drop_Suc [OF inb, symmetric])
  ultimately show ?case
    using rd by (simp add: algebra_simps)
qed

text \<open>
  After a receive the unread bytes lie inside the buffer, provided the socket reports no
  more bytes than the buffer holds.
\<close>

lemma serialAvailableBytes_in_buffer:
  assumes "serialAvailableBytes BUFLEN srv p = (r, srv', p')"
    and "serverAvailableBytes p \<le> 0" and "srv_connected srv"
    and "fst (srv_incoming srv (srv_receives srv)) \<le> int (length (serverBuffer p))"
  shows "0 \<le> serverByteIndex p' \<and>
         serverByteIndex p' + serverAvailableBytes p' \<le> int (length (serverBuffer p'))"
  using assms
  by (auto simp: serialAvailableBytes_def receiveBuffer_def store_bytes_def Let_def
           split: if_splits prod.splits)

text \<open>Reading one of the available bytes keeps the remaining ones inside the buffer.\<close>

lemma serialReadByte_in_buffer:
  assumes "serialReadByte p = Some (b, p')"
    and "serverByteIndex p + serverAvailableBytes p \<le> int (length (serverBuffer p))"
  shows "0 \<le> serverByteIndex p' \<and>
         serverByteIndex p' + serverAvailableBytes p' \<le> int (length (serverBuffer p'))"
  using assms by (auto simp: serialReadByte_def split: if_splits)

text \<open>
  Claim C3: with \<open>N > 0\<close> bytes available (and lying inside the buffer, as they do
  after \<^verbatim>\<open>serialAvailableBytes\<close>), \<^verbatim>\<open>serialReadByte\<close> returns the byte at the read
  cursor, moves the cursor on by one and takes one off the count; \<open>N\<close> calls return
  the \<open>N\<close> unread bytes in order and leave the count at \<open>0\<close>.
\<close>

theorem serialReadByte_drains:
  assumes "serverAvailableBytes p = int N" and "0 < N"
    and "0 \<le> serverByteIndex p"
    and "serverByteIndex p + int N \<le> int (length (serverBuffer p))"
  shows "serialReadByte p =
           Some (serverBuffer p ! nat (serverByteIndex p),
                 p\<lparr>serverByteIndex := serverByteIndex p + 1,
                   serverAvailableBytes := int N - 1\<rparr>) \<and>
         serialReadByte_calls N p =
           Some (take N (drop (nat (serverByteIndex p)) (serverBuffer p)),
                 p\<lparr>serverByteIndex := serverByteIndex p + int N,
                   serverAvailableBytes := 0\<rparr>)"
proof -
  from assms have "serverByteIndex p < int (length (serverBuffer p))" by linarith
  with assms have one: "serialReadByte p =
           Some (serverBuffer p ! nat (serverByteIndex p),
                 p\<lparr>serverByteIndex := serverByteIndex p + 1,
                   serverAvailableBytes := int N - 1\<rparr>)"
    by (simp add: serialReadByte_def)
  from serialReadByte_calls_in_range [OF assms(3) assms(4)] assms(1)
  have "serialReadByte_calls N p =
           Some (take N (drop (nat (serverByteIndex p)) (serverBuffer p)),
                 p\<lparr>serverByteIndex := serverByteIndex p + int N,
                   serverAvailableBytes := 0\<rparr>)"
    by simp
  with one show ?thesis by simp
qed

theorem serialReadByte_drains_witness:
  "serverAvailableBytes (examplePawn\<lparr>serverAvailableBytes := 3\<rparr>) = int 3 \<and>
   serialReadByte (examplePawn\<lparr>serverAvailableBytes := 3\<rparr>) =
     Some (36, examplePawn\<lparr>serverByteIndex := 1, serverAvailableBytes := 2\<rparr>) \<and>
   serialReadByte_calls 3 (examplePawn\<lparr>serverAvailableBytes := 3\<rparr>) =
     Some ([36, 77, 60], examplePawn\<lparr>serverByteIndex := 3, serverAvailableBytes := 0\<rparr>)"
proof -
  let ?p = "examplePawn\<lparr>serverAvailableBytes := 3\<rparr>"
  have h1: "serverAvailableBytes ?p = int 3" by simp
  have h2: "0 < (3::nat)" by simp
  have h3: "0 \<le> serverByteIndex ?p" by (simp add: examplePawn_def)
  have h4: "serverByteIndex ?p + int 3 \<le> int (length (serverBuffer ?p))"
    by (simp add: examplePawn_def)
  show ?thesis
    using serialReadByte_drains [OF h1 h2 h3 h4] by (simp add: examplePawn_def)
qed

subsection \<open>Sensors\<close>

text \<open>
  Claim C4: after a tick with a frame time other than zero, \<^verbatim>\<open>getGyrometer\<close> returns
  the difference of the current and the previous Euler angles divided by the frame
  time in the roll and pitch components and zero in the yaw component; with equal
  current and previous angles it returns the zero vector. The yaw component is zero
  in every state.
\<close>

theorem getGyrometer_after_Tick:
  assumes "DeltaSeconds h \<noteq> 0"
  shows "\<exists>p'. Tick h p = Some p' \<and>
           getGyrometer p' =
             (True, [(vX (eulerAngles h) - vX (eulerPrev p)) / DeltaSeconds h,
                     (vY (eulerAngles h) - vY (eulerPrev p)) / DeltaSeconds h,
                     0]) \<and>
           (eulerAngles h = eulerPrev p \<longrightarrow> getGyrometer p' = (True, [0, 0, 0])) \<and>
           eulerPrev p' = eulerAngles h \<and>
           snd (getGyrometer s) ! 2 = 0"
  using assms by (simp add: Tick_def getGyrometer_def FVector_div_def FVector_minus_def Let_def)

theorem getGyrometer_after_Tick_witness:
  "DeltaSeconds exampleFrame \<noteq> 0 \<and>
   map_option getGyrometer (Tick exampleFrame examplePawn) = Some (True, [5, - 10, 0]) \<and>
   map_option getGyrometer
     (Tick exampleFrame (examplePawn\<lparr>eulerPrev := eulerAngles exampleFrame\<rparr>))
     = Some (True, [0, 0, 0])"
proof -
  have h: "DeltaSeconds exampleFrame \<noteq> 0" by (simp add: exampleFrame_def)
  show ?thesis
    using getGyrometer_after_Tick [OF h, where p = examplePawn and s = examplePawn]
      getGyrometer_after_Tick [OF h,
        where p = "examplePawn\<lparr>eulerPrev := eulerAngles exampleFrame\<rparr>" and s = examplePawn]
    by (auto simp: exampleFrame_def examplePawn_def)
qed

subsection \<open>The accelerometer\<close>

text \<open>Some binary32 values: \<open>0.02\<close>, \<open>0.03\<close> and \<open>0.09\<close> as \<^verbatim>\<open>float\<close>, and two quotients.\<close>

lemma to_float_fiftieth: "to_float (1 / 50) = 5368709 / 268435456"
  unfolding to_float_def
  by (subst round_to_binade [where k = "- 6"]) (simp_all add: rne_def)

lemma to_float_one: "to_float 1 = 1"
  unfolding to_float_def
  by (subst round_to_binade [where k = "0"]) (simp_all add: rne_def)

lemma to_float_two: "to_float 2 = 2"
  unfolding to_float_def
  by (subst round_to_binade [where k = "1"]) (simp_all add: rne_def)

lemma to_float_64: "to_float 64 = 64"
  unfolding to_float_def
  by (subst round_to_binade [where k = "6"]) (simp_all add: rne_def)

lemma vario_3: "to_float (3 / 100) = 16106127 / 536870912"
  unfolding to_float_def
  by (subst round_to_binade [where k = "- 6"]) (simp_all add: rne_def)

lemma vario_3_exact: "to_float (16106127 / 536870912) = 16106127 / 536870912"
  unfolding to_float_def
  by (subst round_to_binade [where k = "- 6"]) (simp_all add: rne_def)

lemma vario_9: "to_float (9 / 100) = 3019899 / 33554432"
  unfolding to_float_def
  by (subst round_to_binade [where k = "- 4"]) (simp_all add: rne_def)

lemma vario_9_exact: "to_float (3019899 / 33554432) = 3019899 / 33554432"
  unfolding to_float_def
  by (subst round_to_binade [where k = "- 4"]) (simp_all add: rne_def)

lemma accel_3: "to_float (3 / 2) = 3 / 2"
  unfolding to_float_def
  by (subst round_to_binade [where k = "0"]) (simp_all add: rne_def)

lemma accel_9: "to_float (24159192 / 5368709) = 9437185 / 2097152"
  unfolding to_float_def
  by (subst round_to_binade [where k = "2"]) (simp_all add: rne_def)

text \<open>
  Claim C9, as stated: for every scalar \<open>k\<close>, the acceleration computed from the samples
  \<open>k * current\<close> and \<open>k * previous\<close> is exactly \<open>k\<close> times the one computed from \<open>current\<close>
  and \<open>previous\<close>. With the frame time \<open>0.02\<close> (as a \<^verbatim>\<open>float\<close>), the previous sample \<open>0\<close>
  and the vertical velocity \<open>3\<close> the tick stores \<open>1.5\<close>; with the velocity \<open>9\<close> it stores
  \<open>9437185 / 2\<^sup>2\<^sup>1\<close>, about \<open>4.50000048\<close>, and not \<open>4.5\<close>.
\<close>

theorem accelZ_scaling_counterexample:
  "to_float (1 / 50) = 5368709 / 268435456 \<and>
   map_option accelZ
     (Tick (exampleFrame\<lparr>velocityZ := 3, DeltaSeconds := 5368709 / 268435456\<rparr>)
           (examplePawn\<lparr>varioPrev := 0\<rparr>)) = Some (3 / 2) \<and>
   map_option accelZ
     (Tick (exampleFrame\<lparr>velocityZ := 3 * 3, DeltaSeconds := 5368709 / 268435456\<rparr>)
           (examplePawn\<lparr>varioPrev := 3 * 0\<rparr>)) = Some (9437185 / 2097152) \<and>
   (9437185 / 2097152 :: real) \<noteq> 3 * (3 / 2)"
  by (simp add: Tick_def Let_def to_float_fiftieth vario_3 vario_3_exact vario_9 vario_9_exact
        accel_3 accel_9)

text \<open>
  Claim C9, amended: the vertical acceleration scales exactly with the powers of two.
  For a frame time other than zero and \<open>k = 2\<^sup>j\<close> with any integer \<open>j\<close>, a tick with the
  current velocity \<open>k * cur\<close> and the previous sample \<open>k * prev\<close> stores \<open>k\<close> times the
  acceleration that the tick with \<open>cur\<close> and \<open>prev\<close> stores, provided that the three
  intermediate results of either computation (the sample in m/s, the difference, the
  quotient) are zero or in the normal range of binary32.
\<close>

theorem accelZ_scales_by_powers_of_two:
  assumes "DeltaSeconds h \<noteq> 0"
    and "vario = to_float (cur / 100)"
    and "diff = to_float (vario - prev)"
    and "acc = to_float (diff / DeltaSeconds h)"
    and "normal32 vario \<and> normal32 diff \<and> normal32 acc"
    and "normal32 (2 powi j * vario) \<and> normal32 (2 powi j * diff) \<and> normal32 (2 powi j * acc)"
  shows "\<exists>p1 pk.
           Tick (h\<lparr>velocityZ := cur\<rparr>) (p\<lparr>varioPrev := prev\<rparr>) = Some p1 \<and>
           Tick (h\<lparr>velocityZ := 2 powi j * cur\<rparr>) (p\<lparr>varioPrev := 2 powi j * prev\<rparr>) = Some pk \<and>
           accelZ p1 = acc \<and>
           accelZ pk = 2 powi j * accelZ p1"
proof -
  let ?k = "(2::real) powi j"
  let ?dt = "DeltaSeconds h"
  have v: "to_float (?k * cur / 100) = ?k * vario"
    using to_float_scale [of j "cur / 100"] assms(2) by simp
  have "?k * vario - ?k * prev = ?k * (vario - prev)" by (simp add: algebra_simps)
  then have d: "to_float (?k * vario - ?k * prev) = ?k * diff"
    using to_float_scale [of j "vario - prev"] assms(3) by simp
  have a: "to_float (?k * diff / ?dt) = ?k * acc"
    using to_float_scale [of j "diff / ?dt"] assms(4) by simp
  have one: "Tick (h\<lparr>velocityZ := cur\<rparr>) (p\<lparr>varioPrev := prev\<rparr>) =
      Some (p\<lparr>varioPrev := prev, quat := actorQuat h,
              gyro := FVector_div (FVector_minus (eulerAngles h) (eulerPrev p)) ?dt,
              eulerPrev := eulerAngles h, accelZ := acc, varioPrev := vario\<rparr>)"
    using assms(1-4) by (simp add: Tick_def Let_def)
  have scaled: "Tick (h\<lparr>velocityZ := ?k * cur\<rparr>) (p\<lparr>varioPrev := ?k * prev\<rparr>) =
      Some (p\<lparr>varioPrev := ?k * prev, quat := actorQuat h,
              gyro := FVector_div (FVector_minus (eulerAngles h) (eulerPrev p)) ?dt,
              eulerPrev := eulerAngles h, accelZ := ?k * acc, varioPrev := ?k * vario\<rparr>)"
    using assms(1) by (simp add: Tick_def Let_def v d a)
  show ?thesis unfolding one scaled by simp
qed

theorem accelZ_scales_by_powers_of_two_witness:
  "DeltaSeconds (exampleFrame\<lparr>DeltaSeconds := 1 / 64\<rparr>) \<noteq> 0 \<and>
   normal32 2 \<and> normal32 1 \<and> normal32 64 \<and>
   normal32 (2 powi 2 * 2) \<and> normal32 (2 powi 2 * 1) \<and> normal32 (2 powi 2 * 64) \<and>
   map_option accelZ
     (Tick (exampleFrame\<lparr>DeltaSeconds := 1 / 64, velocityZ := 200\<rparr>)
           (examplePawn\<lparr>varioPrev := 1\<rparr>)) = Some 64 \<and>
   map_option accelZ
     (Tick (exampleFrame\<lparr>DeltaSeconds := 1 / 64, velocityZ := 2 powi 2 * 200\<rparr>)
           (examplePawn\<lparr>varioPrev := 2 powi 2 * 1\<rparr>)) = Some 256"
proof -
  let ?h = "exampleFrame\<lparr>DeltaSeconds := 1 / 64\<rparr>"
  have h1: "DeltaSeconds ?h \<noteq> 0" by simp
  have h2: "(2::real) = to_float (200 / 100)" by (simp add: to_float_two)
  have h3: "(1::real) = to_float (2 - 1)" by (simp add: to_float_one)
  have h4: "(64::real) = to_float (1 / DeltaSeconds ?h)" by (simp add: to_float_64)
  have h5: "normal32 2 \<and> normal32 1 \<and> normal32 64" by (simp add: normal32_def)
  have h6: "normal32 (2 powi 2 * 2) \<and> normal32 (2 powi 2 * 1) \<and> normal32 (2 powi 2 * 64)"
    by (simp add: normal32_def)
  from accelZ_scales_by_powers_of_two [OF h1 h2 h3 h4 h5 h6, of examplePawn]
  obtain p1 pk where
    "Tick (?h\<lparr>velocityZ := 200\<rparr>) (examplePawn\<lparr>varioPrev := 1\<rparr>) = Some p1"
    "Tick (?h\<lparr>velocityZ := 2 powi 2 * 200\<rparr>) (examplePawn\<lparr>varioPrev := 2 powi 2 * 1\<rparr>) = Some pk"
    "accelZ p1 = 64" "accelZ pk = 2 powi 2 * accelZ p1"
    by blast
  then show ?thesis using h1 h5 h6 by simp
qed

subsection \<open>Sensor noise\<close>

text \<open>
  The loop of \<^verbatim>\<open>addNoise\<close>, started at the index \<open>k\<close> on an array that has room for
  \<^verbatim>\<open>_size\<close> entries: it ends, keeps the length, and adds the sample number \<open>i - k\<close> to
  the entry \<open>i\<close> for every \<open>i\<close> from \<open>k\<close> up to \<^verbatim>\<open>_size\<close>.
\<close>

lemma addNoise_loop_result:
  "unat (gn_size gn) \<le> length vals \<Longrightarrow> k \<le> unat (gn_size gn) \<Longrightarrow>
   \<exists>vals' gn'. addNoise_loop k gn vals = Some (vals', gn') \<and> length vals' = length vals \<and>
     (\<forall>i < length vals. vals' ! i =
        (if k \<le> i \<and> i < unat (gn_size gn) then vals ! i + gn_generator gn (i - k) else vals ! i))"
proof (induction k gn vals rule: addNoise_loop.induct)
  case (1 k gn vals)
  show ?case
  proof (cases "k < unat (gn_size gn)")
    case False
    with "1.prems" have "k = unat (gn_size gn)" by simp
    then show ?thesis by (subst addNoise_loop.simps) simp
  next
    case True
    with "1.prems" have inb: "k < length vals" by simp
    let ?gn' = "gn\<lparr>gn_generator := (\<lambda>n. gn_generator gn (Suc n))\<rparr>"
    let ?vals1 = "vals[k := vals ! k + gn_generator gn 0]"
    have d: "draw gn = (gn_generator gn 0, ?gn')" by (simp add: draw_def)
    have "\<exists>vals' gn''. addNoise_loop (k + 1) ?gn' ?vals1 = Some (vals', gn'') \<and>
            length vals' = length ?vals1 \<and>
            (\<forall>i < length ?vals1. vals' ! i =
               (if k + 1 \<le> i \<and> i < unat (gn_size ?gn') then ?vals1 ! i + gn_generator ?gn' (i - (k + 1))
                else ?vals1 ! i))"
      using True inb "1.prems" by (intro "1.IH" [OF True inb d [symmetric]]) simp_all
    then obtain vals' gn'' where
      run: "addNoise_loop (k + 1) ?gn' ?vals1 = Some (vals', gn'')" and
      len: "length vals' = length vals" and
      nth: "\<And>i. i < length vals \<Longrightarrow> vals' ! i =
               (if k + 1 \<le> i \<and> i < unat (gn_size gn) then ?vals1 ! i + gn_generator gn (Suc (i - (k + 1)))
                else ?vals1 ! i)"
      by auto
    have step: "addNoise_loop k gn vals = Some (vals', gn'')"
      using True inb d run by (subst addNoise_loop.simps) simp
    have "vals' ! i =
        (if k \<le> i \<and> i < unat (gn_size gn) then vals ! i + gn_generator gn (i - k) else vals ! i)"
      if "i < length vals" for i
    proof (cases "i = k")
      case True
      with nth [OF that] inb show ?thesis using \<open>k < unat (gn_size gn)\<close> by simp
    next
      case False
      then have "Suc (i - (k + 1)) = i - k" if "k + 1 \<le> i" using that by simp
      with nth [OF \<open>i < length vals\<close>] False show ?thesis by auto
    qed
    with step len show ?thesis by blast
  qed
qed

text \<open>
  Claim C5, as stated: the quaternion that \<^verbatim>\<open>getQuaternion\<close> delivers is exactly
  \<open>(W, -X, -Y, Z)\<close>, with nothing else applied. The function adds the samples of
  \<^verbatim>\<open>_quatNoise\<close> before it returns: for the quaternion \<open>(1/2, 1/2, 1/2, 1/2)\<close> and the
  samples \<open>0.01, 0.02, 0.03, 0.04\<close> it delivers \<open>(0.51, -0.48, -0.47, 0.54)\<close>.
\<close>

theorem getQuaternion_noise_counterexample:
  "map_option (fst \<circ> snd) (getQuaternion examplePawn)
     = Some [51 / 100, - 48 / 100, - 47 / 100, 54 / 100] \<and>
   map_option (fst \<circ> snd) (getQuaternion examplePawn)
     \<noteq> Some [qW (quat examplePawn), - qX (quat examplePawn),
              - qY (quat examplePawn), qZ (quat examplePawn)]"
  by (simp add: getQuaternion_def examplePawn_def addNoise_def draw_def)

text \<open>
  Claim C5, amended: for every quaternion \<open>(W, X, Y, Z)\<close> of the simulation and a noise
  model of at most four entries, \<^verbatim>\<open>getQuaternion\<close> returns true and delivers
  \<open>(W, -X, -Y, Z)\<close> with the \<open>k\<close>-th sample of the noise generator added to the entry
  \<open>k\<close>, for every \<open>k\<close> below the size of the noise model. When these samples are zero the
  delivered quaternion is exactly \<open>(W, -X, -Y, Z)\<close>.
\<close>

theorem getQuaternion_noisy:
  assumes "unat (gn_size (quatNoise p)) \<le> 4"
  shows "\<exists>q p'. getQuaternion p = Some (True, q, p') \<and> length q = 4 \<and>
           (\<forall>k < 4. q ! k =
              [qW (quat p), - qX (quat p), - qY (quat p), qZ (quat p)] ! k
              + (if k < unat (gn_size (quatNoise p)) then gn_generator (quatNoise p) k else 0)) \<and>
           ((\<forall>k < unat (gn_size (quatNoise p)). gn_generator (quatNoise p) k = 0) \<longrightarrow>
              q = [qW (quat p), - qX (quat p), - qY (quat p), qZ (quat p)])"
proof -
  let ?base = "[qW (quat p), - qX (quat p), - qY (quat p), qZ (quat p)]"
  let ?gn = "quatNoise p"
  from assms have "unat (gn_size ?gn) \<le> length ?base" by simp
  from addNoise_loop_result [OF this, of 0]
  obtain q gn' where
    run: "addNoise_loop 0 ?gn ?base = Some (q, gn')" and
    len: "length q = 4" and
    nth: "\<And>i. i < 4 \<Longrightarrow> q ! i =
            (if i < unat (gn_size ?gn) then ?base ! i + gn_generator ?gn i else ?base ! i)"
    by auto
  have res: "getQuaternion p = Some (True, q, p\<lparr>quatNoise := gn'\<rparr>)"
    using run by (simp add: getQuaternion_def addNoise_def)
  have plus: "\<forall>k < 4. q ! k = ?base ! k + (if k < unat (gn_size ?gn) then gn_generator ?gn k else 0)"
    using nth by simp
  have quiet: "q = ?base" if z: "\<forall>k < unat (gn_size ?gn). gn_generator ?gn k = 0"
  proof (rule nth_equalityI)
    show "length q = length ?base" using len by simp
  next
    fix i assume "i < length q"
    then have "i < 4" using len by simp
    from nth [OF this] z show "q ! i = ?base ! i" by simp
  qed
  from res len plus quiet show ?thesis by blast
qed

theorem getQuaternion_noisy_witness:
  "unat (gn_size (quatNoise examplePawn)) \<le> 4 \<and>
   map_option (fst \<circ> snd)
     (getQuaternion (examplePawn\<lparr>quatNoise := \<lparr>gn_size = 4, gn_noise = 0, gn_generator = (\<lambda>n. 0)\<rparr>\<rparr>))
     = Some [1 / 2, - 1 / 2, - 1 / 2, 1 / 2] \<and>
   map_option (fst \<circ> snd)
     (getQuaternion (examplePawn\<lparr>quatNoise := \<lparr>gn_size = 2, gn_noise = 1, gn_generator = (\<lambda>n. 1)\<rparr>\<rparr>))
     = Some [3 / 2, 1 / 2, - 1 / 2, 1 / 2]"
proof -
  let ?quiet = "examplePawn\<lparr>quatNoise := \<lparr>gn_size = 4, gn_noise = 0, gn_generator = (\<lambda>n. 0)\<rparr>\<rparr>"
  let ?two = "examplePawn\<lparr>quatNoise := \<lparr>gn_size = 2, gn_noise = 1, gn_generator = (\<lambda>n. 1)\<rparr>\<rparr>"
  have h1: "unat (gn_size (quatNoise ?quiet)) \<le> 4" by simp
  have h2: "unat (gn_size (quatNoise ?two)) \<le> 4" by simp
  show ?thesis
    using getQuaternion_noisy [OF h1] getQuaternion_noisy [OF h2]
    by (simp add: getQuaternion_def examplePawn_def addNoise_def draw_def)
qed

subsection \<open>The clock\<close>












subsection \<open>Joystick\<close>

text \<open>
  Claim C7: on the RealFlight InterLink, whose auxiliary switch appears as the buttons
  3 and 4, an event that presses button 3 sets the auxiliary channel to \<open>0.0\<close>, an event
  that presses button 4 sets it to \<open>1.0\<close>, and an event that releases either button
  sets it to \<open>0.5\<close>.
\<close>

theorem interlink_buttons_aux:
  assumes "length axes = 6"
  shows "handleRealflightInterlinkButtons 3 1 axes = Some (axes[AX_AU1 := 0]) \<and>
         handleRealflightInterlinkButtons 4 1 axes = Some (axes[AX_AU1 := 1]) \<and>
         handleRealflightInterlinkButtons 3 0 axes = Some (axes[AX_AU1 := 1 / 2]) \<and>
         handleRealflightInterlinkButtons 4 0 axes = Some (axes[AX_AU1 := 1 / 2]) \<and>
         axes[AX_AU1 := 0] ! AX_AU1 = 0 \<and>
         axes[AX_AU1 := 1] ! AX_AU1 = 1 \<and>
         axes[AX_AU1 := 1 / 2] ! AX_AU1 = 1 / 2"
  using assms
  by (simp add: handleRealflightInterlinkButtons_def store_axis_def AX_AU1_def)

theorem interlink_buttons_aux_witness:
  "length [0, 0, 0, 0, 1 / 2, 0 :: real] = 6 \<and>
   handleRealflightInterlinkButtons 3 1 [0, 0, 0, 0, 1 / 2, 0] = Some [0, 0, 0, 0, 0, 0] \<and>
   handleRealflightInterlinkButtons 4 1 [0, 0, 0, 0, 1 / 2, 0] = Some [0, 0, 0, 0, 1, 0] \<and>
   handleRealflightInterlinkButtons 4 0 [0, 0, 0, 0, 1, 0] = Some [0, 0, 0, 0, 1 / 2, 0]"
  using interlink_buttons_aux [of "[0, 0, 0, 0, 1 / 2, 0]"]
    interlink_buttons_aux [of "[0, 0, 0, 0, 1, 0]"]
  by (simp add: AX_AU1_def)

text \<open>
  Without a device the loop runs through all sixteen slots, and \<^verbatim>\<open>joystickInit\<close>
  hands the two arrays to the receiver as they were on entry.
\<close>

lemma grabJoystick_none:
  "joyid \<le> 16 \<Longrightarrow> (\<forall>k < 16. joyGetDevCaps k = None) \<Longrightarrow> grabJoystick joyGetDevCaps joyid = 16"
proof (induction joyGetDevCaps joyid rule: grabJoystick.induct)
  case (1 joyGetDevCaps joyid)
  show ?case
  proof (cases "joyid < 16")
    case True
    with "1.prems" have "joyGetDevCaps joyid = None" by simp
    with True "1.IH" "1.prems" show ?thesis by (subst grabJoystick.simps) simp
  next
    case False
    with "1.prems" show ?thesis by (subst grabJoystick.simps) simp
  qed
qed

lemma joystickInit_without_device:
  assumes "\<forall>k < 16. joyGetDevCaps k = None"
  shows "joystickInit ids joyGetDevCaps axismap0 buttonmap0 =
           (16, \<lparr>rx_axismap = axismap0, rx_buttonmap = buttonmap0,
                 rx_reversedVerticals = False, rx_springyThrottle = False,
                 rx_useButtonForAux = False\<rparr>)"
  using grabJoystick_none [of 0 joyGetDevCaps] assms
  by (simp add: joystickInit_def)

text \<open>
  Claim C8: with no input device attached the receiver is still constructed, with axis
  and button maps that are all zero. The code constructs the receiver, leaves
  \<^verbatim>\<open>_joyid\<close> at 16 and the three flags false, but it assigns nothing to the two
  arrays on that path: when they hold \<open>7\<close> and \<open>9\<close> on entry, so do the maps of the
  receiver.
\<close>

theorem joystickInit_no_device_maps:
  "joystickInit exampleIds (\<lambda>k. None) [7, 7, 7, 7, 7] [9, 9, 9, 9, 9] =
     (16, \<lparr>rx_axismap = [7, 7, 7, 7, 7], rx_buttonmap = [9, 9, 9, 9, 9],
           rx_reversedVerticals = False, rx_springyThrottle = False,
           rx_useButtonForAux = False\<rparr>) \<and>
   rx_axismap (snd (joystickInit exampleIds (\<lambda>k. None) [7, 7, 7, 7, 7] [9, 9, 9, 9, 9]))
     \<noteq> [0, 0, 0, 0, 0] \<and>
   rx_buttonmap (snd (joystickInit exampleIds (\<lambda>k. None) [7, 7, 7, 7, 7] [9, 9, 9, 9, 9]))
     \<noteq> [0, 0, 0, 0, 0]"
  by (simp add: joystickInit_without_device)

end
